theory Spec2Isabelle
  imports Main
begin

section \<open>The MIDI port of LMMS (src/core/midi/midi_port.cpp)\<close>

text \<open>
  A shallow embedding of \<^verbatim>\<open>midiPort\<close>. The port is a record of its member
  variables; every member function takes the port and returns the updated port together
  with the list of calls it made, in order, to its collaborators (the MIDI client, the
  event processor, the Qt signals it emits and the song).
\<close>

subsection \<open>Events\<close>

text \<open>
  Modelled from the spec: \<^verbatim>\<open>midiEvent\<close>, \<^verbatim>\<open>MidiEventTypes\<close> and
  \<^verbatim>\<open>midiTime\<close> are declared in headers that are not part of the sources. An event
  carries a type, a channel and the two data parameters read through \<^verbatim>\<open>key()\<close>
  and \<^verbatim>\<open>velocity()\<close>. The event types the port inspects are constructors of their
  own; \<open>MidiOtherEvent\<close> stands for every other member of the enumeration. All numbers
  are integers: the port compares them, decrements a positive channel and stores the
  value of a model, which the constructor bounds (a fixed velocity is at most
  \<^verbatim>\<open>MidiMaxVelocity\<close>), so no operation on them overflows.
\<close>

datatype MidiEventTypes =
    MidiNoteOff
  | MidiNoteOn
  | MidiKeyPressure
  | MidiProgramChange
  | MidiOtherEvent nat

text \<open>Modelled from the spec: a timestamp; \<^verbatim>\<open>midiTime( 0 )\<close> is \<open>0\<close>.\<close>

type_synonym midiTime = int

text \<open>
  Modelled from the spec: the fields of \<^verbatim>\<open>midiEvent\<close> that the port reads and
  writes.
\<close>

record midiEvent =
  m_type :: MidiEventTypes
  m_channel :: int
  key :: int
  velocity :: int

text \<open>
  Modelled from the spec: the constructor \<^verbatim>\<open>midiEvent( type, channel, param1, param2 )\<close>
  of the missing header; the first data parameter is the one \<^verbatim>\<open>key()\<close> reads.
\<close>

definition midiEvent_ctor :: "MidiEventTypes \<Rightarrow> int \<Rightarrow> int \<Rightarrow> int \<Rightarrow> midiEvent" where
  "midiEvent_ctor t c param1 param2 =
     \<lparr>m_type = t, m_channel = c, key = param1, velocity = param2\<rparr>"

subsection \<open>The port\<close>

text \<open>
  Modelled from the spec: the enumeration \<^verbatim>\<open>midiPort::Modes\<close> of midi_port.h,
  with the four members the constructor and the table of the mode update name.
\<close>

datatype Modes = Disabled | Input | Output | Duplex

text \<open>
  Modelled from the spec: the type \<^verbatim>\<open>midiPort::map\<close> of the two registries is declared
  in midi_port.h, which is not part of the sources. The spec describes it as an ordered
  mapping from identifiers to booleans in insertion order: a list of entries with unique
  keys, where assigning to a key replaces the value in place when the key is present and
  appends a new entry otherwise.
\<close>

type_synonym port_map = "(string \<times> bool) list"

text \<open>
  Modelled from the spec: \<^verbatim>\<open>m[k] = v\<close> on a registry, as described above.
\<close>

fun map_assign :: "port_map \<Rightarrow> string \<Rightarrow> bool \<Rightarrow> port_map" where
  "map_assign [] k v = [(k, v)]"
| "map_assign ((k', v') # m) k v =
     (if k' = k then (k', v) # m else (k', v') # map_assign m k v)"

text \<open>
  Modelled from the spec: \<^verbatim>\<open>it.value()\<close>, the value an iterator standing at key
  \<open>k\<close> of a registry reads.
\<close>

definition map_value :: "port_map \<Rightarrow> string \<Rightarrow> bool" where
  "map_value m k = (map_of m k = Some True)"

text \<open>\<^verbatim>\<open>QStringList::indexOf\<close>: the first position of a string, or -1.\<close>

fun indexOf :: "string list \<Rightarrow> string \<Rightarrow> int" where
  "indexOf [] x = - 1"
| "indexOf (y # ys) x =
     (if y = x then 0 else (let i = indexOf ys x in if i = - 1 then - 1 else i + 1))"

text \<open>
  The member variables of the port that its member functions read and write, as the
  constructor initialises them: the mode, the values of the nine models and the two
  registries.
\<close>

record midiPort =
  m_mode :: Modes
  m_inputChannelModel :: int
  m_outputChannelModel :: int
  m_inputControllerModel :: int
  m_outputControllerModel :: int
  m_fixedInputVelocityModel :: int
  m_fixedOutputVelocityModel :: int
  m_outputProgramModel :: int
  m_readableModel :: bool
  m_writableModel :: bool
  m_readablePorts :: port_map
  m_writablePorts :: port_map

text \<open>
  Modelled from the spec: the accessors are declared in midi_port.h. Each reads the
  value of its model; \<^verbatim>\<open>inputEnabled()\<close> and \<^verbatim>\<open>outputEnabled()\<close> are the two
  toggles.
\<close>

definition inputEnabled :: "midiPort \<Rightarrow> bool" where
  "inputEnabled p = m_readableModel p"

definition outputEnabled :: "midiPort \<Rightarrow> bool" where
  "outputEnabled p = m_writableModel p"

definition inputChannel :: "midiPort \<Rightarrow> int" where
  "inputChannel p = m_inputChannelModel p"

definition outputChannel :: "midiPort \<Rightarrow> int" where
  "outputChannel p = m_outputChannelModel p"

definition fixedInputVelocity :: "midiPort \<Rightarrow> int" where
  "fixedInputVelocity p = m_fixedInputVelocityModel p"

definition fixedOutputVelocity :: "midiPort \<Rightarrow> int" where
  "fixedOutputVelocity p = m_fixedOutputVelocityModel p"

definition outputProgram :: "midiPort \<Rightarrow> int" where
  "outputProgram p = m_outputProgramModel p"

subsection \<open>Calls to the collaborators\<close>

datatype effect =
    ClientApplyPortMode Modes
  | ClientSubscribeReadablePort string bool
  | ClientSubscribeWritablePort string bool
  | ClientProcessOutEvent midiEvent midiTime
  | ProcessorProcessInEvent midiEvent midiTime
  | EmitReadablePortsChanged
  | EmitWritablePortsChanged
  | EmitModeChanged
  | SongSetModified

fun isSubscribeReadable :: "effect \<Rightarrow> bool" where
  "isSubscribeReadable (ClientSubscribeReadablePort k b) = True"
| "isSubscribeReadable e = False"

fun isSubscribeWritable :: "effect \<Rightarrow> bool" where
  "isSubscribeWritable (ClientSubscribeWritablePort k b) = True"
| "isSubscribeWritable e = False"

fun isSignal :: "effect \<Rightarrow> bool" where
  "isSignal EmitReadablePortsChanged = True"
| "isSignal EmitWritablePortsChanged = True"
| "isSignal EmitModeChanged = True"
| "isSignal e = False"

subsection \<open>Mode\<close>

text \<open>
  \<^verbatim>\<open>setMode\<close> stores the mode and tells the client. The table of
  \<^verbatim>\<open>updateMidiPortMode\<close> is indexed by the two toggles, false being 0 and true
  being 1.
\<close>

definition setMode :: "Modes \<Rightarrow> midiPort \<Rightarrow> midiPort \<times> effect list" where
  "setMode mode p = (p\<lparr>m_mode := mode\<rparr>, [ClientApplyPortMode mode])"

definition modeTable :: "Modes list list" where
  "modeTable = [[Disabled, Output], [Input, Duplex]]"

subsection \<open>Subscribing and the mode update\<close>

text \<open>
  The constructor connects \<^verbatim>\<open>dataChanged()\<close> of both toggles to
  \<^verbatim>\<open>updateMidiPortMode()\<close>, so \<^verbatim>\<open>m_readableModel.setValue( true )\<close> in
  \<^verbatim>\<open>subscribeReadablePort\<close>, which changes the toggle (it is reached only when the
  toggle is false), runs the mode update before it returns; the mode update in turn
  calls the subscribe functions with \<^verbatim>\<open>false\<close>. The functions are therefore defined
  together. A loop over a registry is a recursion over its keys, in order, reading the
  current value at each key: the calls made inside the loops assign to existing keys
  only, so the keys do not change while a loop runs.
\<close>

function subscribeReadablePort :: "string \<Rightarrow> bool \<Rightarrow> midiPort \<Rightarrow> midiPort \<times> effect list"
  and subscribeWritablePort :: "string \<Rightarrow> bool \<Rightarrow> midiPort \<Rightarrow> midiPort \<times> effect list"
  and updateMidiPortMode :: "midiPort \<Rightarrow> midiPort \<times> effect list"
  and unsubscribeReadablePorts :: "string list \<Rightarrow> midiPort \<Rightarrow> midiPort \<times> effect list"
  and unsubscribeWritablePorts :: "string list \<Rightarrow> midiPort \<Rightarrow> midiPort \<times> effect list"
where
  "subscribeReadablePort port sub p =
     (case (let p1 = p\<lparr>m_readablePorts := map_assign (m_readablePorts p) port sub\<rparr>
            in if sub = True \<and> \<not> inputEnabled p1
               then updateMidiPortMode (p1\<lparr>m_readableModel := True\<rparr>)
               else (p1, []))
      of (p2, es) \<Rightarrow> (p2, es @ [ClientSubscribeReadablePort port sub]))"
| "subscribeWritablePort port sub p =
     (case (let p1 = p\<lparr>m_writablePorts := map_assign (m_writablePorts p) port sub\<rparr>
            in if sub = True \<and> \<not> outputEnabled p1
               then updateMidiPortMode (p1\<lparr>m_writableModel := True\<rparr>)
               else (p1, []))
      of (p2, es) \<Rightarrow> (p2, es @ [ClientSubscribeWritablePort port sub]))"
| "updateMidiPortMode p =
     (case setMode (modeTable ! (if m_readableModel p then 1 else 0)
                              ! (if m_writableModel p then 1 else 0)) p of (p1, e1) \<Rightarrow>
      case (if \<not> inputEnabled p1
            then unsubscribeReadablePorts (map fst (m_readablePorts p1)) p1
            else (p1, [])) of (p2, e2) \<Rightarrow>
      case (if \<not> outputEnabled p2
            then unsubscribeWritablePorts (map fst (m_writablePorts p2)) p2
            else (p2, [])) of (p3, e3) \<Rightarrow>
      (p3, e1 @ e2 @ e3 @
           [EmitReadablePortsChanged, EmitWritablePortsChanged, EmitModeChanged,
            SongSetModified]))"
| "unsubscribeReadablePorts [] p = (p, [])"
| "unsubscribeReadablePorts (k # ks) p =
     (case (if map_value (m_readablePorts p) k
            then subscribeReadablePort k False p
            else (p, [])) of (p1, e1) \<Rightarrow>
      case unsubscribeReadablePorts ks p1 of (p2, e2) \<Rightarrow> (p2, e1 @ e2))"
| "unsubscribeWritablePorts [] p = (p, [])"
| "unsubscribeWritablePorts (k # ks) p =
     (case (if map_value (m_writablePorts p) k
            then subscribeWritablePort k False p
            else (p, [])) of (p1, e1) \<Rightarrow>
      case unsubscribeWritablePorts ks p1 of (p2, e2) \<Rightarrow> (p2, e1 @ e2))"
  by pat_completeness auto

termination
  by (relation "inv_image (less_than <*lex*> less_than)
     (\<lambda>x. case x of
        Inl (Inl (port, sub, p)) \<Rightarrow> (if sub then 3 else 0, 0)
      | Inl (Inr (port, sub, p)) \<Rightarrow> (if sub then 3 else 0, 0)
      | Inr (Inl p) \<Rightarrow> (2, 0)
      | Inr (Inr (Inl (ks, p))) \<Rightarrow> (1, length ks)
      | Inr (Inr (Inr (ks, p))) \<Rightarrow> (1, length ks))")
    auto

declare subscribeReadablePort.simps [simp del]
declare subscribeWritablePort.simps [simp del]
declare updateMidiPortMode.simps [simp del]

subsection \<open>Event routing\<close>

text \<open>
  \<open>NumKeys\<close> is a constant of a header that is not part of the sources; it is a
  parameter of \<open>processInEvent\<close>.
\<close>

definition processInEvent ::
  "int \<Rightarrow> midiEvent \<Rightarrow> midiTime \<Rightarrow> midiPort \<Rightarrow> midiPort \<times> effect list" where
  "processInEvent NumKeys me time p =
     (if inputEnabled p \<and> (inputChannel p - 1 = m_channel me \<or> inputChannel p = 0)
      then
        if (m_type me = MidiNoteOn \<or> m_type me = MidiNoteOff \<or> m_type me = MidiKeyPressure)
           \<and> (key me < 0 \<or> key me \<ge> NumKeys)
        then (p, [])
        else
          (let ev = me;
               ev = (if fixedInputVelocity p \<ge> 0 \<and> velocity me > 0
                     then ev\<lparr>velocity := fixedInputVelocity p\<rparr> else ev)
           in (p, [ProcessorProcessInEvent ev time]))
      else (p, []))"

definition processOutEvent ::
  "midiEvent \<Rightarrow> midiTime \<Rightarrow> midiPort \<Rightarrow> midiPort \<times> effect list" where
  "processOutEvent me time p =
     (if outputEnabled p \<and> outputChannel p = m_channel me
      then
        (let ev = me;
             ev = (if m_channel ev > 0 then ev\<lparr>m_channel := m_channel ev - 1\<rparr> else ev);
             ev = (if fixedOutputVelocity p \<ge> 0 \<and> velocity me > 0 \<and>
                      (m_type me = MidiNoteOn \<or> m_type me = MidiKeyPressure)
                   then ev\<lparr>velocity := fixedOutputVelocity p\<rparr> else ev)
         in (p, [ClientProcessOutEvent ev time]))
      else (p, []))"

text \<open>
  The slot connected to \<^verbatim>\<open>dataChanged()\<close> of the output program model. The event
  is built with three arguments; the default of the constructor's last parameter is
  declared in the missing header and is the parameter \<open>param2\<close> here.
\<close>

definition updateOutputProgram :: "int \<Rightarrow> midiPort \<Rightarrow> midiPort \<times> effect list" where
  "updateOutputProgram param2 p =
     processOutEvent
       (midiEvent_ctor MidiProgramChange (outputChannel p) (outputProgram p - 1) param2) 0 p"

subsection \<open>Refreshing the registries\<close>

text \<open>The first loop of \<^verbatim>\<open>updateReadablePorts\<close>: the keys whose value is true.\<close>

fun selected_ports :: "port_map \<Rightarrow> string list" where
  "selected_ports [] = []"
| "selected_ports ((k, v) # m) = (if v = True then k # selected_ports m else selected_ports m)"

text \<open>The second loop: insert the new ports and restore the selections.\<close>

fun insert_ports :: "string list \<Rightarrow> string list \<Rightarrow> port_map \<Rightarrow> port_map" where
  "insert_ports selected [] m = m"
| "insert_ports selected (k # ks) m =
     insert_ports selected ks (map_assign m k (indexOf selected k \<noteq> - 1))"

text \<open>
  The list \<open>wp\<close> is what the client's \<^verbatim>\<open>readablePorts()\<close> (or
  \<^verbatim>\<open>writablePorts()\<close>) returns.
\<close>

definition updateReadablePorts :: "string list \<Rightarrow> midiPort \<Rightarrow> midiPort \<times> effect list" where
  "updateReadablePorts wp p =
     (let selected = selected_ports (m_readablePorts p)
      in (p\<lparr>m_readablePorts := insert_ports selected wp []\<rparr>, [EmitReadablePortsChanged]))"

definition updateWritablePorts :: "string list \<Rightarrow> midiPort \<Rightarrow> midiPort \<times> effect list" where
  "updateWritablePorts wp p =
     (let selected = selected_ports (m_writablePorts p)
      in (p\<lparr>m_writablePorts := insert_ports selected wp []\<rparr>, [EmitWritablePortsChanged]))"

subsection \<open>Saving and loading the subscriptions\<close>

text \<open>
  The element \<^verbatim>\<open>_this\<close> is a map from attribute names to strings;
  \<^verbatim>\<open>attribute\<close> reads the empty string where the attribute is not set, and
  \<^verbatim>\<open>QString::split\<close> keeps empty parts (the empty string splits into one empty
  part).
\<close>

type_synonym attributes = "string \<rightharpoonup> string"

definition attribute :: "attributes \<Rightarrow> string \<Rightarrow> string" where
  "attribute this name = (case this name of None \<Rightarrow> [] | Some v \<Rightarrow> v)"

fun split :: "char \<Rightarrow> string \<Rightarrow> string list" where
  "split sep [] = [[]]"
| "split sep (c # cs) =
     (if c = sep then [] # split sep cs
      else (case split sep cs of [] \<Rightarrow> [[c]] | w # ws \<Rightarrow> (c # w) # ws))"

text \<open>The loop that appends every selected key and a comma to the string.\<close>

fun append_selected :: "port_map \<Rightarrow> string \<Rightarrow> string" where
  "append_selected [] rp = rp"
| "append_selected ((k, v) # m) rp = append_selected m (if v then rp @ k @ '','' else rp)"

definition cut_off_comma :: "string \<Rightarrow> string" where
  "cut_off_comma rp = (if length rp > 0 then take (length rp - 1) rp else rp)"

text \<open>
  \<^verbatim>\<open>saveSettings\<close> and \<^verbatim>\<open>loadSettings\<close> first save and load the nine models
  through the model classes, which are not part of the sources. The two definitions
  embed what follows: the \<^verbatim>\<open>inports\<close> and \<^verbatim>\<open>outports\<close> attributes, with the
  port as it is once the models have been saved or loaded.
\<close>

definition saveSettings :: "midiPort \<Rightarrow> attributes \<Rightarrow> attributes" where
  "saveSettings p this =
     (let this1 = (if inputEnabled p
                   then this(''inports'' \<mapsto> cut_off_comma (append_selected (m_readablePorts p) []))
                   else this)
      in if outputEnabled p
         then this1(''outports'' \<mapsto> cut_off_comma (append_selected (m_writablePorts p) []))
         else this1)"

text \<open>
  Both loops of \<^verbatim>\<open>loadSettings\<close> call \<^verbatim>\<open>subscribeReadablePort( it.key() )\<close>
  with one argument. The default of \<^verbatim>\<open>_subscribe\<close> is declared in midi_port.h; it
  is the parameter \<open>dflt\<close>. Each loop is a recursion over the keys of the registry
  it walks, reading the current value at each key; the second loop walks the writable
  registry, so a key that its call adds to the readable registry does not change the
  keys it walks.
\<close>

fun restoreReadablePorts ::
  "bool \<Rightarrow> string list \<Rightarrow> string list \<Rightarrow> midiPort \<Rightarrow> midiPort \<times> effect list" where
  "restoreReadablePorts dflt rp [] p = (p, [])"
| "restoreReadablePorts dflt rp (k # ks) p =
     (case (if map_value (m_readablePorts p) k \<noteq> (indexOf rp k \<noteq> - 1)
            then subscribeReadablePort k dflt p
            else (p, [])) of (p1, e1) \<Rightarrow>
      case restoreReadablePorts dflt rp ks p1 of (p2, e2) \<Rightarrow> (p2, e1 @ e2))"

fun restoreWritablePorts ::
  "bool \<Rightarrow> string list \<Rightarrow> string list \<Rightarrow> midiPort \<Rightarrow> midiPort \<times> effect list" where
  "restoreWritablePorts dflt wp [] p = (p, [])"
| "restoreWritablePorts dflt wp (k # ks) p =
     (case (if map_value (m_writablePorts p) k \<noteq> (indexOf wp k \<noteq> - 1)
            then subscribeReadablePort k dflt p
            else (p, [])) of (p1, e1) \<Rightarrow>
      case restoreWritablePorts dflt wp ks p1 of (p2, e2) \<Rightarrow> (p2, e1 @ e2))"

definition loadSettings :: "bool \<Rightarrow> attributes \<Rightarrow> midiPort \<Rightarrow> midiPort \<times> effect list" where
  "loadSettings dflt this p =
     (case (if inputEnabled p
            then (case restoreReadablePorts dflt (split CHR '','' (attribute this ''inports''))
                         (map fst (m_readablePorts p)) p of
                    (p1, e1) \<Rightarrow> (p1, e1 @ [EmitReadablePortsChanged]))
            else (p, [])) of (p1, e1) \<Rightarrow>
      case (if outputEnabled p1
            then (case restoreWritablePorts dflt (split CHR '','' (attribute this ''outports''))
                         (map fst (m_writablePorts p1)) p1 of
                    (p2, e2) \<Rightarrow> (p2, e2 @ [EmitWritablePortsChanged]))
            else (p1, [])) of (p2, e2) \<Rightarrow>
      (p2, e1 @ e2))"

subsection \<open>Auxiliary functions: what the unsubscribe loops compute\<close>

text \<open>
  The registry after the loop of the mode update over the keys \<open>ks\<close>, and the keys
  for which the loop calls the subscribe function.
\<close>

fun unsubscribed :: "string list \<Rightarrow> port_map \<Rightarrow> port_map" where
  "unsubscribed [] m = m"
| "unsubscribed (k # ks) m =
     unsubscribed ks (if map_value m k then map_assign m k False else m)"

fun unsubscribe_calls :: "string list \<Rightarrow> port_map \<Rightarrow> string list" where
  "unsubscribe_calls [] m = []"
| "unsubscribe_calls (k # ks) m =
     (if map_value m k then k # unsubscribe_calls ks (map_assign m k False)
      else unsubscribe_calls ks m)"

text \<open>
  A registry is a map: its keys are unique. The registries of a new port are empty, and
  every operation keeps the keys unique (shown below).
\<close>

definition unique_keys :: "midiPort \<Rightarrow> bool" where
  "unique_keys p =
     (distinct (map fst (m_readablePorts p)) \<and> distinct (map fst (m_writablePorts p)))"

section \<open>Properties\<close>

subsection \<open>What the mode update computes\<close>

lemma subscribeReadablePort_False:
  "subscribeReadablePort k False p =
     (p\<lparr>m_readablePorts := map_assign (m_readablePorts p) k False\<rparr>,
      [ClientSubscribeReadablePort k False])"
  by (simp add: subscribeReadablePort.simps)

lemma subscribeWritablePort_False:
  "subscribeWritablePort k False p =
     (p\<lparr>m_writablePorts := map_assign (m_writablePorts p) k False\<rparr>,
      [ClientSubscribeWritablePort k False])"
  by (simp add: subscribeWritablePort.simps)

lemma unsubscribeReadablePorts_eq:
  "unsubscribeReadablePorts ks p =
     (p\<lparr>m_readablePorts := unsubscribed ks (m_readablePorts p)\<rparr>,
      map (\<lambda>k. ClientSubscribeReadablePort k False) (unsubscribe_calls ks (m_readablePorts p)))"
  by (induction ks arbitrary: p) (simp_all add: subscribeReadablePort_False)

lemma unsubscribeWritablePorts_eq:
  "unsubscribeWritablePorts ks p =
     (p\<lparr>m_writablePorts := unsubscribed ks (m_writablePorts p)\<rparr>,
      map (\<lambda>k. ClientSubscribeWritablePort k False) (unsubscribe_calls ks (m_writablePorts p)))"
  by (induction ks arbitrary: p) (simp_all add: subscribeWritablePort_False)

lemma updateMidiPortMode_eq:
  "updateMidiPortMode p =
     (p\<lparr>m_mode := modeTable ! (if m_readableModel p then 1 else 0)
                           ! (if m_writableModel p then 1 else 0),
        m_readablePorts :=
          (if m_readableModel p then m_readablePorts p
           else unsubscribed (map fst (m_readablePorts p)) (m_readablePorts p)),
        m_writablePorts :=
          (if m_writableModel p then m_writablePorts p
           else unsubscribed (map fst (m_writablePorts p)) (m_writablePorts p))\<rparr>,
      [ClientApplyPortMode (modeTable ! (if m_readableModel p then 1 else 0)
                                      ! (if m_writableModel p then 1 else 0))] @
      (if m_readableModel p then []
       else map (\<lambda>k. ClientSubscribeReadablePort k False)
              (unsubscribe_calls (map fst (m_readablePorts p)) (m_readablePorts p))) @
      (if m_writableModel p then []
       else map (\<lambda>k. ClientSubscribeWritablePort k False)
              (unsubscribe_calls (map fst (m_writablePorts p)) (m_writablePorts p))) @
      [EmitReadablePortsChanged, EmitWritablePortsChanged, EmitModeChanged, SongSetModified])"
  by (simp add: updateMidiPortMode.simps setMode_def inputEnabled_def outputEnabled_def
        unsubscribeReadablePorts_eq unsubscribeWritablePorts_eq)

lemma map_value_append_Cons:
  "k \<notin> fst ` set pre \<Longrightarrow> map_value (pre @ (k, v) # r) k = v"
  by (induction pre) (auto simp: map_value_def)

lemma map_assign_append_Cons:
  "k \<notin> fst ` set pre \<Longrightarrow> map_assign (pre @ (k, v) # r) k b = pre @ (k, b) # r"
  by (induction pre) auto

text \<open>
  With unique keys, the loop over all keys of a registry sets every entry to false,
  and calls the subscribe function once for each entry that was true. The induction
  walks the registry with the entries already visited in \<open>pre\<close>.
\<close>

lemma unsubscribed_append:
  "distinct (map fst (pre @ rest)) \<Longrightarrow>
   unsubscribed (map fst rest) (pre @ rest) = pre @ map (\<lambda>(k, v). (k, False)) rest"
proof (induction rest arbitrary: pre)
  case Nil
  then show ?case by simp
next
  case (Cons e rest)
  obtain k v where e: "e = (k, v)" by (cases e)
  from Cons.prems e have notin: "k \<notin> fst ` set pre" by auto
  from Cons.prems e have d: "distinct (map fst ((pre @ [(k, False)]) @ rest))" by auto
  have step: "(if map_value (pre @ (k, v) # rest) k
               then map_assign (pre @ (k, v) # rest) k False
               else pre @ (k, v) # rest) = (pre @ [(k, False)]) @ rest"
    using notin by (cases v) (simp_all add: map_value_append_Cons map_assign_append_Cons)
  show ?case
    using Cons.IH [OF d] step by (simp add: e)
qed

lemma unsubscribe_calls_append:
  "distinct (map fst (pre @ rest)) \<Longrightarrow>
   unsubscribe_calls (map fst rest) (pre @ rest) = selected_ports rest"
proof (induction rest arbitrary: pre)
  case Nil
  then show ?case by simp
next
  case (Cons e rest)
  obtain k v where e: "e = (k, v)" by (cases e)
  from Cons.prems e have notin: "k \<notin> fst ` set pre" by auto
  from Cons.prems e have d: "distinct (map fst ((pre @ [(k, False)]) @ rest))" by auto
  from Cons.prems e have d': "distinct (map fst ((pre @ [(k, v)]) @ rest))" by auto
  show ?case
  proof (cases v)
    case True
    then show ?thesis
      using Cons.IH [OF d] notin
      by (simp add: e map_value_append_Cons map_assign_append_Cons)
  next
    case False
    then show ?thesis
      using Cons.IH [OF d'] notin
      by (simp add: e map_value_append_Cons)
  qed
qed

lemma unsubscribed_all:
  "distinct (map fst m) \<Longrightarrow> unsubscribed (map fst m) m = map (\<lambda>(k, v). (k, False)) m"
  using unsubscribed_append [of "[]" m] by simp

lemma unsubscribe_calls_all:
  "distinct (map fst m) \<Longrightarrow> unsubscribe_calls (map fst m) m = selected_ports m"
  using unsubscribe_calls_append [of "[]" m] by simp

lemma selected_ports_all_False: "selected_ports (map (\<lambda>(k, v). (k, False)) m) = []"
  by (induction m) auto

lemma filter_subscribe_calls [simp]:
  "filter isSubscribeReadable (map (\<lambda>k. ClientSubscribeReadablePort k b) ks) =
     map (\<lambda>k. ClientSubscribeReadablePort k b) ks"
  "filter isSubscribeReadable (map (\<lambda>k. ClientSubscribeWritablePort k b) ks) = []"
  "filter isSubscribeWritable (map (\<lambda>k. ClientSubscribeWritablePort k b) ks) =
     map (\<lambda>k. ClientSubscribeWritablePort k b) ks"
  "filter isSubscribeWritable (map (\<lambda>k. ClientSubscribeReadablePort k b) ks) = []"
  "filter isSignal (map (\<lambda>k. ClientSubscribeReadablePort k b) ks) = []"
  "filter isSignal (map (\<lambda>k. ClientSubscribeWritablePort k b) ks) = []"
  by (induction ks) simp_all

subsection \<open>The mode follows the toggles\<close>

text \<open>
  C1. After the mode update the mode of the port is the entry of the table
  \<open>{Disabled, Output}, {Input, Duplex}\<close> at \<open>[inputEnabled][outputEnabled]\<close>, for the
  toggles as they are after the update, which are the toggles before it: Disabled for
  (false, false), Output for (false, true), Input for (true, false) and Duplex for
  (true, true).
\<close>

theorem updateMidiPortMode_table:
  "m_mode (fst (updateMidiPortMode p)) =
     modeTable ! (if inputEnabled (fst (updateMidiPortMode p)) then 1 else 0)
               ! (if outputEnabled (fst (updateMidiPortMode p)) then 1 else 0)
   \<and> inputEnabled (fst (updateMidiPortMode p)) = inputEnabled p
   \<and> outputEnabled (fst (updateMidiPortMode p)) = outputEnabled p
   \<and> m_mode (fst (updateMidiPortMode p)) =
       (if inputEnabled p then (if outputEnabled p then Duplex else Input)
        else (if outputEnabled p then Output else Disabled))"
  by (simp add: updateMidiPortMode_eq inputEnabled_def outputEnabled_def modeTable_def)

subsection \<open>The order of the notifications\<close>

text \<open>
  C9. Every run of the mode update emits exactly three signals, in the order
  readable-ports-changed, writable-ports-changed, mode-changed.
\<close>

theorem updateMidiPortMode_notification_order:
  "filter isSignal (snd (updateMidiPortMode p)) =
     [EmitReadablePortsChanged, EmitWritablePortsChanged, EmitModeChanged]"
  by (simp add: updateMidiPortMode_eq)

subsection \<open>No subscription survives a disabled direction\<close>

text \<open>
  C4. For a port whose registries have unique keys (as every registry has): when the mode update runs with
  input disabled, every entry of the readable registry is false afterwards (the keys
  and their order are kept), and the client receives one unsubscribe request for each
  entry that was true, and no other request for a readable port; the same holds for
  output and the writable registry. After every mode update a registry whose toggle is
  false has no true entry.
\<close>

theorem updateMidiPortMode_unsubscribes:
  assumes "unique_keys p"
  shows "(\<not> inputEnabled p \<longrightarrow>
            m_readablePorts (fst (updateMidiPortMode p)) =
              map (\<lambda>(k, v). (k, False)) (m_readablePorts p) \<and>
            filter isSubscribeReadable (snd (updateMidiPortMode p)) =
              map (\<lambda>k. ClientSubscribeReadablePort k False)
                (selected_ports (m_readablePorts p)))
       \<and> (\<not> outputEnabled p \<longrightarrow>
            m_writablePorts (fst (updateMidiPortMode p)) =
              map (\<lambda>(k, v). (k, False)) (m_writablePorts p) \<and>
            filter isSubscribeWritable (snd (updateMidiPortMode p)) =
              map (\<lambda>k. ClientSubscribeWritablePort k False)
                (selected_ports (m_writablePorts p)))
       \<and> (\<not> inputEnabled (fst (updateMidiPortMode p)) \<longrightarrow>
            selected_ports (m_readablePorts (fst (updateMidiPortMode p))) = [])
       \<and> (\<not> outputEnabled (fst (updateMidiPortMode p)) \<longrightarrow>
            selected_ports (m_writablePorts (fst (updateMidiPortMode p))) = [])"
  using assms
  by (simp add: unique_keys_def updateMidiPortMode_eq inputEnabled_def outputEnabled_def
        unsubscribed_all unsubscribe_calls_all selected_ports_all_False)

theorem updateMidiPortMode_unsubscribes_witness:
  "(let p = \<lparr>m_mode = Duplex, m_inputChannelModel = 0, m_outputChannelModel = 1,
             m_inputControllerModel = 0, m_outputControllerModel = 0,
             m_fixedInputVelocityModel = - 1, m_fixedOutputVelocityModel = - 1,
             m_outputProgramModel = 1, m_readableModel = False, m_writableModel = False,
             m_readablePorts = [(''A'', True), (''B'', False), (''C'', True)],
             m_writablePorts = [(''D'', True)]\<rparr>
    in unique_keys p
       \<and> \<not> inputEnabled p \<and> \<not> outputEnabled p
       \<and> m_readablePorts (fst (updateMidiPortMode p)) =
           [(''A'', False), (''B'', False), (''C'', False)]
       \<and> filter isSubscribeReadable (snd (updateMidiPortMode p)) =
           [ClientSubscribeReadablePort ''A'' False, ClientSubscribeReadablePort ''C'' False]
       \<and> m_writablePorts (fst (updateMidiPortMode p)) = [(''D'', False)]
       \<and> filter isSubscribeWritable (snd (updateMidiPortMode p)) =
           [ClientSubscribeWritablePort ''D'' False]
       \<and> \<not> inputEnabled (fst (updateMidiPortMode p))
       \<and> \<not> outputEnabled (fst (updateMidiPortMode p))
       \<and> selected_ports (m_readablePorts (fst (updateMidiPortMode p))) = []
       \<and> selected_ports (m_writablePorts (fst (updateMidiPortMode p))) = [])"
  using updateMidiPortMode_unsubscribes
    [of "\<lparr>m_mode = Duplex, m_inputChannelModel = 0, m_outputChannelModel = 1,
          m_inputControllerModel = 0, m_outputControllerModel = 0,
          m_fixedInputVelocityModel = - 1, m_fixedOutputVelocityModel = - 1,
          m_outputProgramModel = 1, m_readableModel = False, m_writableModel = False,
          m_readablePorts = [(''A'', True), (''B'', False), (''C'', True)],
          m_writablePorts = [(''D'', True)]\<rparr>"]
  by (simp add: Let_def unique_keys_def inputEnabled_def outputEnabled_def
        updateMidiPortMode_eq)

subsection \<open>Inbound events\<close>

text \<open>
  C2. \<open>processInEvent\<close> forwards one event to the event processor exactly when input is
  enabled, the input channel is 0 or one more than the channel of the event, and, for a
  note-on, note-off or key-pressure event, the key lies in \<open>[0, NumKeys)\<close>; otherwise
  it forwards nothing. The forwarded event is the event received, with the velocity
  replaced by the fixed input velocity when that is not negative and the velocity
  received is positive; the timestamp is passed on.
\<close>

theorem processInEvent_forwards:
  "processInEvent NumKeys e t p =
     (p, if inputEnabled p
            \<and> (inputChannel p = 0 \<or> inputChannel p - 1 = m_channel e)
            \<and> (m_type e \<in> {MidiNoteOn, MidiNoteOff, MidiKeyPressure} \<longrightarrow>
                 0 \<le> key e \<and> key e < NumKeys)
         then [ProcessorProcessInEvent
                 (e\<lparr>velocity := (if fixedInputVelocity p \<ge> 0 \<and> velocity e > 0
                                  then fixedInputVelocity p else velocity e)\<rparr>) t]
         else [])"
  by (auto simp: processInEvent_def)

theorem processInEvent_forwards_witness:
  "(let p = \<lparr>m_mode = Input, m_inputChannelModel = 5, m_outputChannelModel = 1,
             m_inputControllerModel = 0, m_outputControllerModel = 0,
             m_fixedInputVelocityModel = 100, m_fixedOutputVelocityModel = - 1,
             m_outputProgramModel = 1, m_readableModel = True, m_writableModel = False,
             m_readablePorts = [], m_writablePorts = []\<rparr>
    in processInEvent 128 \<lparr>m_type = MidiNoteOn, m_channel = 4, key = 127, velocity = 64\<rparr> 7 p =
         (p, [ProcessorProcessInEvent
                \<lparr>m_type = MidiNoteOn, m_channel = 4, key = 127, velocity = 100\<rparr> 7])
       \<and> processInEvent 128 \<lparr>m_type = MidiNoteOn, m_channel = 4, key = 128, velocity = 64\<rparr> 7 p =
           (p, [])
       \<and> processInEvent 128 \<lparr>m_type = MidiNoteOn, m_channel = 3, key = 60, velocity = 64\<rparr> 7 p =
           (p, [])
       \<and> processInEvent 128 \<lparr>m_type = MidiNoteOff, m_channel = 4, key = 60, velocity = 0\<rparr> 7 p =
           (p, [ProcessorProcessInEvent
                  \<lparr>m_type = MidiNoteOff, m_channel = 4, key = 60, velocity = 0\<rparr> 7])
       \<and> processInEvent 128 \<lparr>m_type = MidiProgramChange, m_channel = 4, key = 200, velocity = 0\<rparr> 7 p =
           (p, [ProcessorProcessInEvent
                  \<lparr>m_type = MidiProgramChange, m_channel = 4, key = 200, velocity = 0\<rparr> 7]))"
  unfolding Let_def processInEvent_forwards
  by (simp add: inputEnabled_def inputChannel_def fixedInputVelocity_def)

subsection \<open>Outbound events\<close>

text \<open>
  C3. \<open>processOutEvent\<close> hands one event to the client exactly when output is enabled
  and the output channel equals the channel of the event; otherwise it hands over
  nothing. The event handed over has a positive channel decremented by one (any other
  channel is kept), the velocity replaced by the fixed output velocity exactly when that
  is not negative, the velocity of the event is positive and the event is a note-on or
  key-pressure event, and the type, the key and the timestamp unchanged.
\<close>

theorem processOutEvent_transmits:
  "processOutEvent e t p =
     (p, if outputEnabled p \<and> outputChannel p = m_channel e
         then [ClientProcessOutEvent
                 (e\<lparr>m_channel := (if m_channel e > 0 then m_channel e - 1 else m_channel e),
                    velocity := (if fixedOutputVelocity p \<ge> 0 \<and> velocity e > 0
                                    \<and> (m_type e = MidiNoteOn \<or> m_type e = MidiKeyPressure)
                                 then fixedOutputVelocity p else velocity e)\<rparr>) t]
         else [])"
  by (auto simp: processOutEvent_def)

theorem processOutEvent_transmits_witness:
  "(let p = \<lparr>m_mode = Output, m_inputChannelModel = 0, m_outputChannelModel = 3,
             m_inputControllerModel = 0, m_outputControllerModel = 0,
             m_fixedInputVelocityModel = - 1, m_fixedOutputVelocityModel = 100,
             m_outputProgramModel = 1, m_readableModel = False, m_writableModel = True,
             m_readablePorts = [], m_writablePorts = []\<rparr>
    in processOutEvent \<lparr>m_type = MidiNoteOn, m_channel = 3, key = 60, velocity = 64\<rparr> 7 p =
         (p, [ClientProcessOutEvent
                \<lparr>m_type = MidiNoteOn, m_channel = 2, key = 60, velocity = 100\<rparr> 7])
       \<and> processOutEvent \<lparr>m_type = MidiNoteOn, m_channel = 3, key = 60, velocity = 0\<rparr> 7 p =
           (p, [ClientProcessOutEvent
                  \<lparr>m_type = MidiNoteOn, m_channel = 2, key = 60, velocity = 0\<rparr> 7])
       \<and> processOutEvent \<lparr>m_type = MidiNoteOff, m_channel = 3, key = 60, velocity = 64\<rparr> 7 p =
           (p, [ClientProcessOutEvent
                  \<lparr>m_type = MidiNoteOff, m_channel = 2, key = 60, velocity = 64\<rparr> 7])
       \<and> processOutEvent \<lparr>m_type = MidiNoteOn, m_channel = 4, key = 60, velocity = 64\<rparr> 7 p =
           (p, []))"
  unfolding Let_def processOutEvent_transmits
  by (simp add: outputEnabled_def outputChannel_def fixedOutputVelocity_def)

subsection \<open>The output program\<close>

text \<open>
  C7. With the output program set to \<open>v\<close>, \<open>updateOutputProgram\<close> passes one
  program-change event with value \<open>v - 1\<close>, on the output channel and with timestamp
  zero, through \<open>processOutEvent\<close>, and does nothing else. The client therefore
  receives exactly this event (with the channel renumbered and the velocity untouched)
  when output is enabled, and nothing when it is not.
\<close>

theorem updateOutputProgram_event:
  "updateOutputProgram d (p\<lparr>m_outputProgramModel := v\<rparr>) =
     processOutEvent
       \<lparr>m_type = MidiProgramChange, m_channel = outputChannel p, key = v - 1, velocity = d\<rparr>
       0 (p\<lparr>m_outputProgramModel := v\<rparr>)
   \<and> updateOutputProgram d (p\<lparr>m_outputProgramModel := v\<rparr>) =
       (p\<lparr>m_outputProgramModel := v\<rparr>,
        if outputEnabled p
        then [ClientProcessOutEvent
                \<lparr>m_type = MidiProgramChange,
                 m_channel = (if outputChannel p > 0 then outputChannel p - 1
                              else outputChannel p),
                 key = v - 1, velocity = d\<rparr> 0]
        else [])"
  by (simp add: updateOutputProgram_def processOutEvent_def midiEvent_ctor_def
        outputChannel_def outputProgram_def outputEnabled_def fixedOutputVelocity_def)

theorem updateOutputProgram_event_witness:
  "(let p = \<lparr>m_mode = Output, m_inputChannelModel = 0, m_outputChannelModel = 3,
             m_inputControllerModel = 0, m_outputControllerModel = 0,
             m_fixedInputVelocityModel = - 1, m_fixedOutputVelocityModel = 100,
             m_outputProgramModel = 1, m_readableModel = False, m_writableModel = True,
             m_readablePorts = [], m_writablePorts = []\<rparr>
    in updateOutputProgram 0 (p\<lparr>m_outputProgramModel := 42\<rparr>) =
         (p\<lparr>m_outputProgramModel := 42\<rparr>,
          [ClientProcessOutEvent
             \<lparr>m_type = MidiProgramChange, m_channel = 2, key = 41, velocity = 0\<rparr> 0]))"
  using updateOutputProgram_event
    [where d = 0 and v = 42 and p = "\<lparr>m_mode = Output, m_inputChannelModel = 0, m_outputChannelModel = 3,
             m_inputControllerModel = 0, m_outputControllerModel = 0,
             m_fixedInputVelocityModel = - 1, m_fixedOutputVelocityModel = 100,
             m_outputProgramModel = 1, m_readableModel = False, m_writableModel = True,
             m_readablePorts = [], m_writablePorts = []\<rparr>", THEN conjunct2]
  by (simp add: Let_def outputEnabled_def outputChannel_def)

subsection \<open>Event routing leaves the port alone\<close>

text \<open>
  C10. \<open>processInEvent\<close> and \<open>processOutEvent\<close> return the port they were given,
  every field unchanged, and each makes either no call or exactly one call: the event
  forwarded to the event processor, or handed to the client, with the timestamp given.
\<close>

theorem process_events_frame:
  "fst (processInEvent NumKeys e t p) = p
   \<and> fst (processOutEvent e t p) = p
   \<and> (snd (processInEvent NumKeys e t p) = []
        \<or> (\<exists>ev. snd (processInEvent NumKeys e t p) = [ProcessorProcessInEvent ev t]))
   \<and> (snd (processOutEvent e t p) = []
        \<or> (\<exists>ev. snd (processOutEvent e t p) = [ClientProcessOutEvent ev t]))"
  by (simp add: processInEvent_def processOutEvent_def Let_def)

theorem process_events_frame_witness:
  "(let p = \<lparr>m_mode = Duplex, m_inputChannelModel = 0, m_outputChannelModel = 3,
             m_inputControllerModel = 0, m_outputControllerModel = 0,
             m_fixedInputVelocityModel = - 1, m_fixedOutputVelocityModel = - 1,
             m_outputProgramModel = 1, m_readableModel = True, m_writableModel = True,
             m_readablePorts = [(''A'', True)], m_writablePorts = [(''B'', True)]\<rparr>;
        e = \<lparr>m_type = MidiNoteOn, m_channel = 3, key = 60, velocity = 64\<rparr>
    in fst (processInEvent 128 e 7 p) = p \<and> fst (processOutEvent e 7 p) = p
       \<and> length (snd (processInEvent 128 e 7 p)) = 1
       \<and> length (snd (processOutEvent e 7 p)) = 1)"
  using process_events_frame
    [where NumKeys = 128 and t = 7
       and e = "\<lparr>m_type = MidiNoteOn, m_channel = 3, key = 60, velocity = 64\<rparr>"
       and p = "\<lparr>m_mode = Duplex, m_inputChannelModel = 0, m_outputChannelModel = 3,
             m_inputControllerModel = 0, m_outputControllerModel = 0,
             m_fixedInputVelocityModel = - 1, m_fixedOutputVelocityModel = - 1,
             m_outputProgramModel = 1, m_readableModel = True, m_writableModel = True,
             m_readablePorts = [(''A'', True)], m_writablePorts = [(''B'', True)]\<rparr>"]
  by (simp add: Let_def processInEvent_def processOutEvent_def inputEnabled_def
        outputEnabled_def inputChannel_def outputChannel_def)

subsection \<open>Subscribing\<close>

lemma subscribeReadablePort_eq:
  "subscribeReadablePort port sub p =
     (if sub \<and> \<not> m_readableModel p
      then (case updateMidiPortMode
                   (p\<lparr>m_readablePorts := map_assign (m_readablePorts p) port sub,
                      m_readableModel := True\<rparr>) of
              (p2, es) \<Rightarrow> (p2, es @ [ClientSubscribeReadablePort port sub]))
      else (p\<lparr>m_readablePorts := map_assign (m_readablePorts p) port sub\<rparr>,
            [ClientSubscribeReadablePort port sub]))"
  by (simp add: subscribeReadablePort.simps inputEnabled_def Let_def)

lemma subscribeWritablePort_eq:
  "subscribeWritablePort port sub p =
     (if sub \<and> \<not> m_writableModel p
      then (case updateMidiPortMode
                   (p\<lparr>m_writablePorts := map_assign (m_writablePorts p) port sub,
                      m_writableModel := True\<rparr>) of
              (p2, es) \<Rightarrow> (p2, es @ [ClientSubscribeWritablePort port sub]))
      else (p\<lparr>m_writablePorts := map_assign (m_writablePorts p) port sub\<rparr>,
            [ClientSubscribeWritablePort port sub]))"
  by (simp add: subscribeWritablePort.simps outputEnabled_def Let_def)

lemma map_of_map_assign: "map_of (map_assign m k v) k = Some v"
  by (induction m) auto

text \<open>
  C8. After \<open>subscribeReadablePort port sub\<close> the readable registry maps \<open>port\<close> to
  \<open>sub\<close>; the client is asked once to subscribe or unsubscribe that readable port,
  with the flag \<open>sub\<close>, as the last call made; and when \<open>sub\<close> is true, input is
  enabled afterwards. The same holds for \<open>subscribeWritablePort\<close>, the writable
  registry and output.
\<close>

theorem subscribe_sets_entry:
  "map_of (m_readablePorts (fst (subscribeReadablePort port sub p))) port = Some sub
   \<and> filter isSubscribeReadable (snd (subscribeReadablePort port sub p)) =
       [ClientSubscribeReadablePort port sub]
   \<and> last (snd (subscribeReadablePort port sub p)) = ClientSubscribeReadablePort port sub
   \<and> (sub \<longrightarrow> inputEnabled (fst (subscribeReadablePort port sub p)))
   \<and> map_of (m_writablePorts (fst (subscribeWritablePort port sub p))) port = Some sub
   \<and> filter isSubscribeWritable (snd (subscribeWritablePort port sub p)) =
       [ClientSubscribeWritablePort port sub]
   \<and> last (snd (subscribeWritablePort port sub p)) = ClientSubscribeWritablePort port sub
   \<and> (sub \<longrightarrow> outputEnabled (fst (subscribeWritablePort port sub p)))"
  by (simp add: subscribeReadablePort_eq subscribeWritablePort_eq updateMidiPortMode_eq
        map_of_map_assign inputEnabled_def outputEnabled_def)

theorem subscribe_sets_entry_witness:
  "(let p = \<lparr>m_mode = Disabled, m_inputChannelModel = 0, m_outputChannelModel = 1,
             m_inputControllerModel = 0, m_outputControllerModel = 0,
             m_fixedInputVelocityModel = - 1, m_fixedOutputVelocityModel = - 1,
             m_outputProgramModel = 1, m_readableModel = False, m_writableModel = False,
             m_readablePorts = [(''A'', False), (''B'', False)],
             m_writablePorts = [(''C'', False)]\<rparr>
    in map_of (m_readablePorts (fst (subscribeReadablePort ''B'' True p))) ''B'' = Some True
       \<and> inputEnabled (fst (subscribeReadablePort ''B'' True p))
       \<and> filter isSubscribeReadable (snd (subscribeReadablePort ''B'' True p)) =
           [ClientSubscribeReadablePort ''B'' True]
       \<and> map_of (m_writablePorts (fst (subscribeWritablePort ''B'' True p))) ''B'' = Some True
       \<and> outputEnabled (fst (subscribeWritablePort ''B'' True p))
       \<and> filter isSubscribeWritable (snd (subscribeWritablePort ''B'' True p)) =
           [ClientSubscribeWritablePort ''B'' True])"
  using subscribe_sets_entry
    [where port = "''B''" and sub = True and p = "\<lparr>m_mode = Disabled, m_inputChannelModel = 0, m_outputChannelModel = 1,
          m_inputControllerModel = 0, m_outputControllerModel = 0,
          m_fixedInputVelocityModel = - 1, m_fixedOutputVelocityModel = - 1,
          m_outputProgramModel = 1, m_readableModel = False, m_writableModel = False,
          m_readablePorts = [(''A'', False), (''B'', False)],
          m_writablePorts = [(''C'', False)]\<rparr>"]
  by (simp add: Let_def)

subsection \<open>Refreshing a registry\<close>

lemma indexOf_ge: "- 1 \<le> indexOf xs x"
  by (induction xs) (auto simp: Let_def)

lemma indexOf_iff: "indexOf xs x \<noteq> - 1 \<longleftrightarrow> x \<in> set xs"
proof (induction xs)
  case Nil
  then show ?case by simp
next
  case (Cons y ys)
  have "- 1 \<le> indexOf ys x" by (rule indexOf_ge)
  with Cons show ?case by (auto simp: Let_def)
qed

lemma selected_ports_set: "k \<in> set (selected_ports m) \<longleftrightarrow> (k, True) \<in> set m"
  by (induction m) (auto split: if_splits)

lemma first_occurrences_distinct: "distinct wp \<Longrightarrow> rev (remdups (rev wp)) = wp"
  by (simp add: distinct_remdups_id)

lemma map_assign_tagged:
  "map_assign (map (\<lambda>k. (k, f k)) acc) k (f k) =
     (if k \<in> set acc then map (\<lambda>k. (k, f k)) acc else map (\<lambda>k. (k, f k)) (acc @ [k]))"
  by (induction acc) auto

lemma remdups_snoc: "remdups (xs @ [k]) = filter (\<lambda>x. x \<noteq> k) (remdups xs) @ [k]"
  by (induction xs) auto

lemma first_occurrences_Cons:
  "rev (remdups (rev (k # r))) = k # filter (\<lambda>x. x \<noteq> k) (rev (remdups (rev r)))"
  by (simp add: remdups_snoc rev_filter)

text \<open>
  Inserting the identifiers \<open>ks\<close> into a registry that already holds \<open>acc\<close>, each
  with its restored selection, appends the identifiers not yet present, at their first
  occurrence.
\<close>

lemma insert_ports_tagged:
  "insert_ports sel ks (map (\<lambda>k. (k, k \<in> set sel)) acc) =
     map (\<lambda>k. (k, k \<in> set sel)) (acc @ filter (\<lambda>k. k \<notin> set acc) (rev (remdups (rev ks))))"
proof (induction ks arbitrary: acc)
  case Nil
  then show ?case by simp
next
  case (Cons k r)
  show ?case
  proof (cases "k \<in> set acc")
    case True
    have "filter (\<lambda>x. x \<notin> set acc) (filter (\<lambda>x. x \<noteq> k) (rev (remdups (rev r)))) =
          filter (\<lambda>x. x \<notin> set acc) (rev (remdups (rev r)))"
      using True by (auto intro: filter_cong)
    with True Cons.IH [of acc] show ?thesis
      by (simp add: indexOf_iff map_assign_tagged [of "\<lambda>k. k \<in> set sel"]
            first_occurrences_Cons del: rev.simps)
  next
    case False
    have "filter (\<lambda>x. x \<notin> set acc) (filter (\<lambda>x. x \<noteq> k) (rev (remdups (rev r)))) =
          filter (\<lambda>x. x \<notin> set (acc @ [k])) (rev (remdups (rev r)))"
      by (auto intro: filter_cong)
    with False Cons.IH [of "acc @ [k]"] show ?thesis
      by (simp add: indexOf_iff map_assign_tagged [of "\<lambda>k. k \<in> set sel"]
            first_occurrences_Cons del: rev.simps)
  qed
qed

lemma insert_ports_empty:
  "insert_ports (selected_ports old) wp [] =
     map (\<lambda>k. (k, (k, True) \<in> set old)) (rev (remdups (rev wp)))"
  using insert_ports_tagged [of "selected_ports old" wp "[]"]
  by (simp add: selected_ports_set)

text \<open>
  C5. For every registry and every list \<open>wp\<close> reported by the client, the refresh
  replaces the registry by one entry for each identifier of \<open>wp\<close>, in the order of
  \<open>wp\<close> (an identifier the list repeats is entered where it first occurs; a list
  without repetitions is reproduced as it is), marked true exactly when the old registry
  had that identifier marked true. Identifiers that are not in \<open>wp\<close> are gone, with
  their state. Nothing else of the port changes, and the signal of the direction is
  emitted. This holds for the readable and the writable registry.
\<close>

theorem refresh_rebuilds_registry:
  "updateReadablePorts wp p =
     (p\<lparr>m_readablePorts :=
          map (\<lambda>k. (k, (k, True) \<in> set (m_readablePorts p))) (rev (remdups (rev wp)))\<rparr>,
      [EmitReadablePortsChanged])
   \<and> updateWritablePorts wp p =
     (p\<lparr>m_writablePorts :=
          map (\<lambda>k. (k, (k, True) \<in> set (m_writablePorts p))) (rev (remdups (rev wp)))\<rparr>,
      [EmitWritablePortsChanged])
   \<and> (distinct wp \<longrightarrow> rev (remdups (rev wp)) = wp)"
  by (simp add: updateReadablePorts_def updateWritablePorts_def insert_ports_empty
        first_occurrences_distinct)

theorem refresh_rebuilds_registry_witness:
  "(let p = \<lparr>m_mode = Input, m_inputChannelModel = 0, m_outputChannelModel = 1,
             m_inputControllerModel = 0, m_outputControllerModel = 0,
             m_fixedInputVelocityModel = - 1, m_fixedOutputVelocityModel = - 1,
             m_outputProgramModel = 1, m_readableModel = True, m_writableModel = False,
             m_readablePorts = [(''A'', True), (''B'', False)],
             m_writablePorts = [(''A'', True), (''B'', True)]\<rparr>;
        q = p\<lparr>m_readablePorts := [(''A'', True), (''B'', True)]\<rparr>
    in distinct [''B'', ''C'']
       \<and> updateReadablePorts [''B'', ''C''] p =
           (p\<lparr>m_readablePorts := [(''B'', False), (''C'', False)]\<rparr>,
            [EmitReadablePortsChanged])
       \<and> updateReadablePorts [''B'', ''C''] q =
           (q\<lparr>m_readablePorts := [(''B'', True), (''C'', False)]\<rparr>,
            [EmitReadablePortsChanged])
       \<and> updateWritablePorts [''B'', ''C'', ''B''] p =
           (p\<lparr>m_writablePorts := [(''B'', True), (''C'', False)]\<rparr>,
            [EmitWritablePortsChanged]))"
  using refresh_rebuilds_registry
    [where wp = "[''B'', ''C'']" and p =
        "\<lparr>m_mode = Input, m_inputChannelModel = 0, m_outputChannelModel = 1,
          m_inputControllerModel = 0, m_outputControllerModel = 0,
          m_fixedInputVelocityModel = - 1, m_fixedOutputVelocityModel = - 1,
          m_outputProgramModel = 1, m_readableModel = True, m_writableModel = False,
          m_readablePorts = [(''A'', True), (''B'', False)],
          m_writablePorts = [(''A'', True), (''B'', True)]\<rparr>"]
    refresh_rebuilds_registry
    [where wp = "[''B'', ''C'']" and p =
        "\<lparr>m_mode = Input, m_inputChannelModel = 0, m_outputChannelModel = 1,
          m_inputControllerModel = 0, m_outputControllerModel = 0,
          m_fixedInputVelocityModel = - 1, m_fixedOutputVelocityModel = - 1,
          m_outputProgramModel = 1, m_readableModel = True, m_writableModel = False,
          m_readablePorts = [(''A'', True), (''B'', True)],
          m_writablePorts = [(''A'', True), (''B'', True)]\<rparr>"]
    refresh_rebuilds_registry
    [where wp = "[''B'', ''C'', ''B'']" and p =
        "\<lparr>m_mode = Input, m_inputChannelModel = 0, m_outputChannelModel = 1,
          m_inputControllerModel = 0, m_outputControllerModel = 0,
          m_fixedInputVelocityModel = - 1, m_fixedOutputVelocityModel = - 1,
          m_outputProgramModel = 1, m_readableModel = True, m_writableModel = False,
          m_readablePorts = [(''A'', True), (''B'', False)],
          m_writablePorts = [(''A'', True), (''B'', True)]\<rparr>"]
  by (simp add: Let_def)

subsection \<open>The registries keep unique keys\<close>

text \<open>
  Assigning to a key keeps the keys of a registry and appends the key when it is new,
  so every operation of the port that changes a registry leaves its keys unique; a
  refresh makes them unique whatever they were.
\<close>

lemma keys_map_assign:
  "map fst (map_assign m k v) = (if k \<in> set (map fst m) then map fst m else map fst m @ [k])"
  by (induction m) force+

lemma distinct_map_assign:
  "distinct (map fst m) \<Longrightarrow> distinct (map fst (map_assign m k v))"
  by (simp add: keys_map_assign)

lemma distinct_unsubscribed:
  "distinct (map fst m) \<Longrightarrow> distinct (map fst (unsubscribed ks m))"
  by (induction ks arbitrary: m) (simp_all add: distinct_map_assign)

lemma unique_keys_updateMidiPortMode:
  "unique_keys p \<Longrightarrow> unique_keys (fst (updateMidiPortMode p))"
  by (simp add: unique_keys_def updateMidiPortMode_eq distinct_unsubscribed)

lemma unique_keys_subscribeReadablePort:
  "unique_keys p \<Longrightarrow> unique_keys (fst (subscribeReadablePort port sub p))"
  by (simp add: unique_keys_def subscribeReadablePort_eq updateMidiPortMode_eq
        distinct_unsubscribed distinct_map_assign)

lemma unique_keys_subscribeWritablePort:
  "unique_keys p \<Longrightarrow> unique_keys (fst (subscribeWritablePort port sub p))"
  by (simp add: unique_keys_def subscribeWritablePort_eq updateMidiPortMode_eq
        distinct_unsubscribed distinct_map_assign)

lemma unique_keys_refresh:
  "unique_keys p \<Longrightarrow> unique_keys (fst (updateReadablePorts wp p))"
  "unique_keys p \<Longrightarrow> unique_keys (fst (updateWritablePorts wp p))"
  by (simp_all add: unique_keys_def updateReadablePorts_def updateWritablePorts_def
        insert_ports_empty o_def)

lemma unique_keys_restoreReadablePorts:
  "unique_keys p \<Longrightarrow> unique_keys (fst (restoreReadablePorts dflt rp ks p))"
proof (induction ks arbitrary: p)
  case Nil
  then show ?case by simp
next
  case (Cons k ks)
  show ?case
  proof (cases "map_value (m_readablePorts p) k \<noteq> (indexOf rp k \<noteq> - 1)")
    case True
    obtain p1 e1 where s: "subscribeReadablePort k dflt p = (p1, e1)"
      by (cases "subscribeReadablePort k dflt p")
    have "unique_keys p1"
      using unique_keys_subscribeReadablePort [OF Cons.prems, of k dflt] s by simp
    from Cons.IH [OF this] True s show ?thesis
      by (simp add: case_prod_beta)
  next
    case False
    with Cons.IH [OF Cons.prems] show ?thesis
      by (simp add: case_prod_beta)
  qed
qed

lemma unique_keys_restoreWritablePorts:
  "unique_keys p \<Longrightarrow> unique_keys (fst (restoreWritablePorts dflt wp ks p))"
proof (induction ks arbitrary: p)
  case Nil
  then show ?case by simp
next
  case (Cons k ks)
  show ?case
  proof (cases "map_value (m_writablePorts p) k \<noteq> (indexOf wp k \<noteq> - 1)")
    case True
    obtain p1 e1 where s: "subscribeReadablePort k dflt p = (p1, e1)"
      by (cases "subscribeReadablePort k dflt p")
    have "unique_keys p1"
      using unique_keys_subscribeReadablePort [OF Cons.prems, of k dflt] s by simp
    from Cons.IH [OF this] True s show ?thesis
      by (simp add: case_prod_beta)
  next
    case False
    with Cons.IH [OF Cons.prems] show ?thesis
      by (simp add: case_prod_beta)
  qed
qed

lemma unique_keys_loadSettings:
  assumes "unique_keys p"
  shows "unique_keys (fst (loadSettings dflt this p))"
proof -
  let ?rp = "split CHR '','' (attribute this ''inports'')"
  let ?wp = "split CHR '','' (attribute this ''outports'')"
  define p1 where "p1 = (if inputEnabled p
     then fst (restoreReadablePorts dflt ?rp (map fst (m_readablePorts p)) p) else p)"
  have u1: "unique_keys p1"
    using assms by (simp add: p1_def unique_keys_restoreReadablePorts)
  have "fst (loadSettings dflt this p) =
          (if outputEnabled p1
           then fst (restoreWritablePorts dflt ?wp (map fst (m_writablePorts p1)) p1) else p1)"
    by (simp add: loadSettings_def p1_def case_prod_beta)
  with u1 show ?thesis
    by (simp add: unique_keys_restoreWritablePorts)
qed

subsection \<open>Saving and loading the subscriptions\<close>

lemma append_selected_concat:
  "append_selected m rp = rp @ concat (map (\<lambda>k. k @ '','') (selected_ports m))"
  by (induction m arbitrary: rp) auto

lemma cut_off_comma_butlast: "cut_off_comma rp = butlast rp"
  by (simp add: cut_off_comma_def butlast_conv_take)

text \<open>
  For an enabled direction, the attribute saved is the selected identifiers of the
  registry, in its order, each followed by a comma, without the last comma; for a
  disabled direction the attribute is not written.
\<close>

lemma saveSettings_attributes:
  "saveSettings p this ''inports'' =
     (if inputEnabled p
      then Some (butlast (concat (map (\<lambda>k. k @ '','') (selected_ports (m_readablePorts p)))))
      else this ''inports'')
   \<and> saveSettings p this ''outports'' =
     (if outputEnabled p
      then Some (butlast (concat (map (\<lambda>k. k @ '','') (selected_ports (m_writablePorts p)))))
      else this ''outports'')"
  by (simp add: saveSettings_def Let_def append_selected_concat cut_off_comma_butlast)

text \<open>
  The calls of \<^verbatim>\<open>loadSettings\<close> pass no flag. With the attribute \<open>in1\<close>
  loaded into a readable registry where \<open>in2\<close> is subscribed and \<open>in1\<close> is not,
  both entries differ from the attribute and the subscribe function is called for both,
  with the default: when that is true, \<open>in2\<close> stays subscribed; when it is false,
  \<open>in1\<close> stays unsubscribed.
\<close>

lemma loadSettings_inports_flag:
  "(let p = \<lparr>m_mode = Input, m_inputChannelModel = 0, m_outputChannelModel = 1,
             m_inputControllerModel = 0, m_outputControllerModel = 0,
             m_fixedInputVelocityModel = - 1, m_fixedOutputVelocityModel = - 1,
             m_outputProgramModel = 1, m_readableModel = True, m_writableModel = False,
             m_readablePorts = [(''in1'', False), (''in2'', True)],
             m_writablePorts = []\<rparr>;
        this = [''inports'' \<mapsto> ''in1'']
    in loadSettings True this p =
         (p\<lparr>m_readablePorts := [(''in1'', True), (''in2'', True)]\<rparr>,
          [ClientSubscribeReadablePort ''in1'' True, ClientSubscribeReadablePort ''in2'' True,
           EmitReadablePortsChanged])
       \<and> loadSettings False this p =
           (p\<lparr>m_readablePorts := [(''in1'', False), (''in2'', False)]\<rparr>,
            [ClientSubscribeReadablePort ''in1'' False, ClientSubscribeReadablePort ''in2'' False,
             EmitReadablePortsChanged]))"
  by (simp add: Let_def loadSettings_def attribute_def subscribeReadablePort_eq map_value_def
        inputEnabled_def outputEnabled_def)

text \<open>
  C6. The claim is that loading what was saved reproduces the subscribed set in both
  directions. The code does not do this for the writable direction: the second loop of
  \<^verbatim>\<open>loadSettings\<close> walks the writable registry and compares it with the
  \<^verbatim>\<open>outports\<close> attribute, but calls \<^verbatim>\<open>subscribeReadablePort\<close>. A port with
  both directions enabled is saved with \<open>in1\<close> and \<open>out1\<close> subscribed, and the
  attributes are loaded into the same port with no subscription yet. Whatever the
  default of the omitted argument is, \<open>out1\<close> stays unsubscribed in the writable
  registry, the client is never asked to subscribe a writable port, and \<open>out1\<close> is
  entered into the readable registry instead. When the default is true, the first loop
  does restore \<open>in1\<close> in the readable registry.
\<close>

theorem loadSettings_outports_not_restored:
  "(let saved = \<lparr>m_mode = Duplex, m_inputChannelModel = 0, m_outputChannelModel = 1,
                 m_inputControllerModel = 0, m_outputControllerModel = 0,
                 m_fixedInputVelocityModel = - 1, m_fixedOutputVelocityModel = - 1,
                 m_outputProgramModel = 1, m_readableModel = True, m_writableModel = True,
                 m_readablePorts = [(''in1'', True), (''in2'', False)],
                 m_writablePorts = [(''out1'', True), (''out2'', False)]\<rparr>;
        this = saveSettings saved Map.empty;
        fresh = saved\<lparr>m_readablePorts := [(''in1'', False), (''in2'', False)],
                      m_writablePorts := [(''out1'', False), (''out2'', False)]\<rparr>
    in this ''inports'' = Some ''in1'' \<and> this ''outports'' = Some ''out1''
       \<and> selected_ports (m_writablePorts saved) = [''out1'']
       \<and> loadSettings True this fresh =
           (fresh\<lparr>m_readablePorts := [(''in1'', True), (''in2'', False), (''out1'', True)]\<rparr>,
            [ClientSubscribeReadablePort ''in1'' True, EmitReadablePortsChanged,
             ClientSubscribeReadablePort ''out1'' True, EmitWritablePortsChanged])
       \<and> selected_ports (m_writablePorts (fst (loadSettings True this fresh))) = []
       \<and> loadSettings False this fresh =
           (fresh\<lparr>m_readablePorts := [(''in1'', False), (''in2'', False), (''out1'', False)]\<rparr>,
            [ClientSubscribeReadablePort ''in1'' False, EmitReadablePortsChanged,
             ClientSubscribeReadablePort ''out1'' False, EmitWritablePortsChanged])
       \<and> selected_ports (m_writablePorts (fst (loadSettings False this fresh))) = [])"
  by (simp add: Let_def saveSettings_def loadSettings_def attribute_def cut_off_comma_def
        subscribeReadablePort_eq updateMidiPortMode_eq map_value_def modeTable_def
        inputEnabled_def outputEnabled_def)

end
